theory Spec2Isabelle
  imports Complex_Main
begin

section \<open>The Lambda authorizer (src/lambda/authorizer/index.py)\<close>

text \<open>
  A shallow embedding of the TOKEN-type authorizer. Python strings are byte lists
  (UTF-8); every JSON object the handler reads (the event, the token header, the claims,
  the two SSM mappings) is a dict from strings to strings, as the type annotations of
  \<open>_build_policy\<close> (\<open>principal_id: str\<close>, \<open>usage_key: str\<close>, \<open>tenant_id: str\<close>)
  say. A dict is an association list read with \<open>map_of\<close>; \<open>[]\<close> is the empty dict, the
  only falsy one. The clock \<open>time.time()\<close> is a real number of seconds. An event whose
  token is not a string, or a parameter that parses to anything but an object of strings,
  makes the code raise an \<open>AttributeError\<close> or a \<open>TypeError\<close> of its own; such inputs
  are outside this model, and nothing below speaks about them.

  What the module cannot compute by itself is a parameter: the PyJWT library, the JWKS
  endpoint and the SSM parameter store are fields of the record \<open>env\<close>, each returning
  either the exception it raises (\<open>Inl\<close>) or its value (\<open>Inr\<close>). The module's globals
  (the two mapping caches and the memo of \<open>_get_jwks\<close>) are the record \<open>state\<close>, passed
  in and returned. Every function also returns the list of effects (prints and I/O calls) it performed, so
  that "no I/O" is a statement about that list.
\<close>

subsection \<open>Python values\<close>

type_synonym dict = "(string \<times> string) list"

datatype exn =
    Exception string
  | ValueError string
  | KeyError string
  | PyJWTError string
  | URLError string

text \<open>\<open>str(e)\<close>: the message, except for a \<open>KeyError\<close>, which prints the key's repr.\<close>

fun str_exn :: "exn \<Rightarrow> string" where
  "str_exn (Exception m) = m"
| "str_exn (ValueError m) = m"
| "str_exn (KeyError k) = [CHR 0x27] @ k @ [CHR 0x27]"
| "str_exn (PyJWTError m) = m"
| "str_exn (URLError m) = m"

datatype effect =
    Print string
  | SsmGetParameter string
  | UrlOpen

text \<open>\<open>d.get(k, default)\<close>.\<close>

definition dict_get :: "dict \<Rightarrow> string \<Rightarrow> string \<Rightarrow> string" where
  "dict_get d k dflt = (case map_of d k of None \<Rightarrow> dflt | Some v \<Rightarrow> v)"

text \<open>Truthiness of the result of \<open>d.get(k)\<close>: \<open>None\<close> and \<open>""\<close> are falsy.\<close>

fun truthy :: "string option \<Rightarrow> bool" where
  "truthy None = False"
| "truthy (Some v) = (v \<noteq> [])"

text \<open>
  \<open>str.lower\<close>. Only the test \<open>lower().startswith("bearer ")\<close> reads it; the bytes of a
  code point outside ASCII are all above 127, and no such code point lowers to one of the
  letters of \<open>bearer\<close> or to a space, so lowering the ASCII capitals decides the test.
\<close>

definition lower_char :: "char \<Rightarrow> char" where
  "lower_char c =
     (case map_of (zip ''ABCDEFGHIJKLMNOPQRSTUVWXYZ'' ''abcdefghijklmnopqrstuvwxyz'') c of
        None \<Rightarrow> c
      | Some l \<Rightarrow> l)"

definition lower :: "string \<Rightarrow> string" where
  "lower s = map lower_char s"

definition startswith :: "string \<Rightarrow> string \<Rightarrow> bool" where
  "startswith s p = (take (length p) s = p)"

text \<open>\<open>s.split(sep)\<close> for a one-character separator: never an empty list.\<close>

fun split :: "char \<Rightarrow> string \<Rightarrow> string list" where
  "split sep [] = [[]]"
| "split sep (c # cs) =
     (if c = sep then [] # split sep cs
      else (case split sep cs of [] \<Rightarrow> [[c]] | w # ws \<Rightarrow> (c # w) # ws))"

text \<open>\<open>sep.join(parts)\<close>.\<close>

fun join :: "string \<Rightarrow> string list \<Rightarrow> string" where
  "join sep [] = []"
| "join sep [p] = p"
| "join sep (p # q # ps) = p @ sep @ join sep (q # ps)"

subsection \<open>The mapping cache: \<open>_get_ssm_json\<close>\<close>

record cache =
  data :: dict
  expires_at :: real

definition CACHE_TTL_SECONDS :: real where
  "CACHE_TTL_SECONDS = 300"

text \<open>
  \<open>ssm path\<close> is the outcome of \<open>get_parameter\<close> followed by \<open>json.loads\<close>: \<open>Inl m\<close> when
  either raises an exception whose text is \<open>m\<close>, \<open>Inr d\<close> the parsed object. The result is
  the returned dict, the cache afterwards and the effects.
\<close>

definition get_ssm_json ::
  "(string \<Rightarrow> string + dict) \<Rightarrow> real \<Rightarrow> string \<Rightarrow> cache \<Rightarrow> dict \<times> cache \<times> effect list" where
  "get_ssm_json ssm now path c =
     (if data c \<noteq> [] \<and> now < expires_at c then (data c, c, [])
      else (case ssm path of
              Inl m \<Rightarrow>
                ((if data c \<noteq> [] then data c else []), c,
                 [SsmGetParameter path,
                  Print (''Failed to load SSM parameter '' @ path @ '': '' @ m)])
            | Inr d \<Rightarrow>
                (d, c\<lparr>data := d, expires_at := now + CACHE_TTL_SECONDS\<rparr>,
                 [SsmGetParameter path])))"

subsection \<open>Environment and module state\<close>

type_synonym jwks = "(string \<times> dict list) list"

record env =
  TENANT_API_KEY_MAP_PATH :: string
  CLIENT_TENANT_MAP_PATH :: string
  ssm_get_json :: "string \<Rightarrow> string + dict"
  urlopen_jwks :: "exn + jwks"
  get_unverified_header :: "string \<Rightarrow> exn + dict"
  from_jwk :: "dict \<Rightarrow> exn + string"
  jwt_decode :: "string \<Rightarrow> string \<Rightarrow> exn + dict"

record state =
  tenant_api_key_cache :: cache
  client_tenant_cache :: cache
  jwks_cache :: "jwks option"

definition initial_state :: state where
  "initial_state =
     \<lparr>tenant_api_key_cache = \<lparr>data = [], expires_at = 0\<rparr>,
      client_tenant_cache = \<lparr>data = [], expires_at = 0\<rparr>,
      jwks_cache = None\<rparr>"

definition get_tenant_api_key_map :: "env \<Rightarrow> real \<Rightarrow> state \<Rightarrow> dict \<times> state \<times> effect list" where
  "get_tenant_api_key_map e now st =
     (case get_ssm_json (ssm_get_json e) now (TENANT_API_KEY_MAP_PATH e) (tenant_api_key_cache st) of
        (d, c, out) \<Rightarrow> (d, st\<lparr>tenant_api_key_cache := c\<rparr>, out))"

definition get_client_tenant_map :: "env \<Rightarrow> real \<Rightarrow> state \<Rightarrow> dict \<times> state \<times> effect list" where
  "get_client_tenant_map e now st =
     (case get_ssm_json (ssm_get_json e) now (CLIENT_TENANT_MAP_PATH e) (client_tenant_cache st) of
        (d, c, out) \<Rightarrow> (d, st\<lparr>client_tenant_cache := c\<rparr>, out))"

subsection \<open>Token validation\<close>

text \<open>\<open>_get_jwks\<close> under \<open>lru_cache(maxsize=1)\<close>: a value is memoised, an exception is not.\<close>

definition get_jwks :: "env \<Rightarrow> state \<Rightarrow> (exn + jwks) \<times> state \<times> effect list" where
  "get_jwks e st =
     (case jwks_cache st of
        Some j \<Rightarrow> (Inr j, st, [])
      | None \<Rightarrow>
          (case urlopen_jwks e of
             Inl x \<Rightarrow> (Inl x, st, [UrlOpen])
           | Inr j \<Rightarrow> (Inr j, st\<lparr>jwks_cache := Some j\<rparr>, [UrlOpen])))"

text \<open>The loop of \<open>_get_public_key\<close> over \<open>jwks.get("keys", [])\<close>.\<close>

fun find_key :: "env \<Rightarrow> dict list \<Rightarrow> string \<Rightarrow> exn + string" where
  "find_key e [] kid = Inl (ValueError (''No matching key found for kid='' @ kid))"
| "find_key e (key_data # rest) kid =
     (case map_of key_data ''kid'' of
        None \<Rightarrow> Inl (KeyError ''kid'')
      | Some k \<Rightarrow> if k = kid then from_jwk e key_data else find_key e rest kid)"

definition get_public_key :: "env \<Rightarrow> state \<Rightarrow> string \<Rightarrow> (exn + string) \<times> state \<times> effect list" where
  "get_public_key e st kid =
     (case get_jwks e st of
        (Inl x, st', out) \<Rightarrow> (Inl x, st', out)
      | (Inr j, st', out) \<Rightarrow>
          (find_key e (case map_of j ''keys'' of None \<Rightarrow> [] | Some ks \<Rightarrow> ks) kid, st', out))"

definition validate_token :: "env \<Rightarrow> state \<Rightarrow> string \<Rightarrow> (exn + dict) \<times> state \<times> effect list" where
  "validate_token e st token =
     (case get_unverified_header e token of
        Inl x \<Rightarrow> (Inl x, st, [])
      | Inr header \<Rightarrow>
          (case map_of header ''kid'' of
             None \<Rightarrow> (Inl (KeyError ''kid''), st, [])
           | Some kid \<Rightarrow>
               (case get_public_key e st kid of
                  (Inl x, st', out) \<Rightarrow> (Inl x, st', out)
                | (Inr public_key, st', out) \<Rightarrow>
                    (case jwt_decode e token public_key of
                       Inl x \<Rightarrow> (Inl x, st', out)
                     | Inr claims \<Rightarrow>
                         if map_of claims ''token_use'' \<noteq> Some ''access''
                         then (Inl (ValueError (''token_use must be '' @ [CHR 0x27] @ ''access'' @ [CHR 0x27])),
                               st', out)
                         else (Inr claims, st', out)))))"

subsection \<open>The decision: \<open>_build_policy\<close>\<close>

record statement =
  Action :: string
  Effect :: string
  Resource :: string

record policy_document =
  Version :: string
  Statement :: "statement list"

text \<open>The key \<open>usageIdentifierKey\<close> is present exactly when the field is \<open>Some\<close>.\<close>

record policy =
  principalId :: string
  policyDocument :: policy_document
  policy_context :: dict
  usageIdentifierKey :: "string option"

text \<open>
  The resource pattern of \<open>_build_policy\<close>. \<open>split\<close> never returns the empty list, so
  \<open>arn_parts[5].split("/")[0]\<close> always exists and the first branch of the \<open>case\<close> below
  is never taken.
\<close>

definition wildcard_resource :: "string \<Rightarrow> string" where
  "wildcard_resource resource =
     (let arn_parts = split CHR '':'' resource
      in if length arn_parts \<ge> 6
         then (case split CHR ''/'' (arn_parts ! 5) of
                 [] \<Rightarrow> resource
               | api_part # _ \<Rightarrow> join '':'' (take 5 arn_parts) @ '':'' @ api_part @ ''/*'')
         else resource)"

definition build_policy ::
  "string \<Rightarrow> string \<Rightarrow> string \<Rightarrow> string option \<Rightarrow> string option \<Rightarrow> policy" where
  "build_policy principal_id effect resource usage_key tenant_id =
     \<lparr>principalId = principal_id,
      policyDocument =
        \<lparr>Version = ''2012-10-17'',
         Statement = [\<lparr>Action = ''execute-api:Invoke'', Effect = effect,
                       Resource = wildcard_resource resource\<rparr>]\<rparr>,
      policy_context = (if truthy tenant_id then [(''tenant_id'', the tenant_id)] else []),
      usageIdentifierKey = (if truthy usage_key then usage_key else None)\<rparr>"

subsection \<open>The entry point: \<open>lambda_handler\<close>\<close>

text \<open>The credential after the optional scheme prefix is cut off.\<close>

definition credential :: "dict \<Rightarrow> string" where
  "credential event =
     (let token_str = dict_get event ''authorizationToken'' ''''
      in if startswith (lower token_str) ''bearer '' then drop 7 token_str else token_str)"

text \<open>\<open>claims.get("client_id") or claims.get("sub", "")\<close>.\<close>

definition caller_identity :: "dict \<Rightarrow> string" where
  "caller_identity claims =
     (if truthy (map_of claims ''client_id'') then the (map_of claims ''client_id'')
      else dict_get claims ''sub'' '''')"

text \<open>
  \<open>now1\<close> and \<open>now2\<close> are the readings of \<open>time.time()\<close> in the first and in the second
  call of \<open>_get_ssm_json\<close>.
\<close>

definition lambda_handler ::
  "env \<Rightarrow> real \<Rightarrow> real \<Rightarrow> dict \<Rightarrow> state \<Rightarrow> (exn + policy) \<times> state \<times> effect list" where
  "lambda_handler e now1 now2 event st =
     (let token_str = credential event;
          method_arn = dict_get event ''methodArn'' ''*''
      in if token_str = [] then (Inl (Exception ''Unauthorized''), st, [])
         else
          (case validate_token e st token_str of
             (Inl x, st1, out1) \<Rightarrow>
               (Inl (Exception ''Unauthorized''), st1,
                out1 @ [Print (''Token validation failed: '' @ str_exn x)])
           | (Inr claims, st1, out1) \<Rightarrow>
               (let client_id = caller_identity claims
                in case get_client_tenant_map e now1 st1 of
                  (client_tenant_map, st2, out2) \<Rightarrow>
                    (let tenant = map_of client_tenant_map client_id
                     in if \<not> truthy tenant
                        then (Inr (build_policy (if client_id \<noteq> [] then client_id else ''unknown'')
                                     ''Deny'' method_arn None None),
                              st2,
                              out1 @ out2 @
                              [Print (''Unknown client_id='' @ client_id @ '', no tenant mapping found'')])
                        else
                         (let tenant_id = the tenant
                          in case get_tenant_api_key_map e now2 st2 of
                            (tenant_api_key_map, st3, out3) \<Rightarrow>
                              (let api_key_value = map_of tenant_api_key_map tenant_id
                               in if \<not> truthy api_key_value
                                  then (Inr (build_policy tenant_id ''Deny'' method_arn None None),
                                        st3,
                                        out1 @ out2 @
                                        [Print (''Resolved client_id='' @ client_id @ '' -> tenant_id='' @ tenant_id)] @
                                        out3 @
                                        [Print (''Tenant '' @ tenant_id @ '' has no API key mapping'')])
                                  else (Inr (build_policy tenant_id ''Allow'' method_arn
                                               api_key_value (Some tenant_id)),
                                        st3,
                                        out1 @ out2 @
                                        [Print (''Resolved client_id='' @ client_id @ '' -> tenant_id='' @ tenant_id)] @
                                        out3 @
                                        [Print (''Authorized tenant='' @ tenant_id @ '', applying usage plan key'')])))))))"

subsection \<open>Reading a result\<close>

text \<open>The parameter-store reads among the effects, in order.\<close>

fun ssm_loads :: "effect list \<Rightarrow> string list" where
  "ssm_loads [] = []"
| "ssm_loads (SsmGetParameter p # xs) = p # ssm_loads xs"
| "ssm_loads (x # xs) = ssm_loads xs"

text \<open>The \<open>Effect\<close> of every statement of the decision (the builder writes one statement).\<close>

definition policy_effects :: "policy \<Rightarrow> string list" where
  "policy_effects p = map Effect (Statement (policyDocument p))"

definition policy_resources :: "policy \<Rightarrow> string list" where
  "policy_resources p = map Resource (Statement (policyDocument p))"

text \<open>
  The resource pattern as the specification words it, for comparison with
  \<open>wildcard_resource\<close>: the method ARN \<open>arn:aws:execute-api:region:account:api/stage/verb/path\<close>
  cut after its stage segment, followed by \<open>/*\<close>.
\<close>

definition stage_wildcard_spec :: "string \<Rightarrow> string" where
  "stage_wildcard_spec resource =
     (let arn_parts = split CHR '':'' resource
      in join '':'' (take 5 arn_parts) @ '':'' @
         join ''/'' (take 2 (split CHR ''/'' (arn_parts ! 5))) @ ''/*'')"

subsection \<open>A concrete deployment\<close>

text \<open>
  An environment to run the model on: the parameter store holds the two given mappings,
  the key set has one key, and the token library accepts the token \<open>good\<close> (an access
  token of client \<open>abc123\<close>), the token \<open>subtok\<close> (an access token with an empty client
  id and the subject \<open>user-42\<close>) and the token \<open>anon\<close> (an access token with neither a
  client id nor a subject), decodes \<open>idtok\<close> to an ID token and rejects the signature of
  every other token.
\<close>

definition demo_jwks :: jwks where
  "demo_jwks = [(''keys'', [[(''kid'', ''k1''), (''n'', ''modulus'')]])]"

definition demo_env :: "dict \<Rightarrow> dict \<Rightarrow> env" where
  "demo_env client_tenant tenant_api_key =
     \<lparr>TENANT_API_KEY_MAP_PATH = ''/auth/tenant-api-key-map'',
      CLIENT_TENANT_MAP_PATH = ''/auth/client-tenant-map'',
      ssm_get_json =
        (\<lambda>p. if p = ''/auth/client-tenant-map'' then Inr client_tenant
             else if p = ''/auth/tenant-api-key-map'' then Inr tenant_api_key
             else Inl ''ParameterNotFound''),
      urlopen_jwks = Inr demo_jwks,
      get_unverified_header = (\<lambda>t. Inr [(''alg'', ''RS256''), (''kid'', ''k1'')]),
      from_jwk = (\<lambda>key_data. Inr (dict_get key_data ''n'' [])),
      jwt_decode =
        (\<lambda>t k. if t = ''good'' \<and> k = ''modulus''
               then Inr [(''client_id'', ''abc123''), (''token_use'', ''access'')]
               else if t = ''idtok'' \<and> k = ''modulus''
               then Inr [(''client_id'', ''abc123''), (''token_use'', ''id'')]
               else if t = ''subtok'' \<and> k = ''modulus''
               then Inr [(''client_id'', []), (''sub'', ''user-42''), (''token_use'', ''access'')]
               else if t = ''anon'' \<and> k = ''modulus''
               then Inr [(''token_use'', ''access'')]
               else Inl (PyJWTError ''Signature verification failed''))\<rparr>"

definition demo_arn :: string where
  "demo_arn = ''arn:aws:execute-api:us-east-1:123456789012:abc123/prod/GET/orders''"

definition demo_event :: "string \<Rightarrow> dict" where
  "demo_event token = [(''authorizationToken'', token), (''methodArn'', demo_arn)]"

text \<open>
  The module state of a cold process after the key set was fetched, after the
  identity-to-tenant mapping was loaded at time \<open>now1\<close>, and after the tenant-to-key
  mapping was loaded at time \<open>now2\<close>.
\<close>

definition demo_state1 :: state where
  "demo_state1 = initial_state\<lparr>jwks_cache := Some demo_jwks\<rparr>"

definition demo_state2 :: "dict \<Rightarrow> real \<Rightarrow> state" where
  "demo_state2 m1 now1 =
     demo_state1\<lparr>client_tenant_cache := \<lparr>data = m1, expires_at = now1 + 300\<rparr>\<rparr>"

definition demo_state3 :: "dict \<Rightarrow> real \<Rightarrow> dict \<Rightarrow> real \<Rightarrow> state" where
  "demo_state3 m1 now1 m2 now2 =
     (demo_state2 m1 now1)\<lparr>tenant_api_key_cache := \<lparr>data = m2, expires_at = now2 + 300\<rparr>\<rparr>"

section \<open>The mapping cache\<close>

lemma ssm_loads_append: "ssm_loads (xs @ ys) = ssm_loads xs @ ssm_loads ys"
  by (induction xs rule: ssm_loads.induct) simp_all

text \<open>
  C8. A get on a cache whose data is non-empty and whose expiry lies strictly ahead
  returns the cached data, leaves the cache as it is and performs no effect at all.
  Any other get reads the parameter store exactly once; when that read succeeds the
  loaded mapping is returned, it replaces the cached data, and the expiry becomes the
  current time plus 300 seconds.
\<close>

theorem get_ssm_json_hit_or_load:
  "(data c \<noteq> [] \<and> now < expires_at c \<longrightarrow>
      get_ssm_json ssm now path c = (data c, c, []))
   \<and> (\<not> (data c \<noteq> [] \<and> now < expires_at c) \<longrightarrow>
      ssm_loads (snd (snd (get_ssm_json ssm now path c))) = [path]
      \<and> (\<forall>d. ssm path = Inr d \<longrightarrow>
            fst (get_ssm_json ssm now path c) = d
            \<and> data (fst (snd (get_ssm_json ssm now path c))) = d
            \<and> expires_at (fst (snd (get_ssm_json ssm now path c))) = now + 300))"
  by (auto simp: get_ssm_json_def CACHE_TTL_SECONDS_def split: sum.splits)

theorem get_ssm_json_hit_or_load_witness:
  "get_ssm_json (\<lambda>p. Inr [(''abc123'', ''tenantB'')]) 100 ''/p''
      \<lparr>data = [(''abc123'', ''tenantA'')], expires_at = 400\<rparr>
     = ([(''abc123'', ''tenantA'')], \<lparr>data = [(''abc123'', ''tenantA'')], expires_at = 400\<rparr>, [])
   \<and> ssm_loads (snd (snd (get_ssm_json (\<lambda>p. Inr [(''abc123'', ''tenantB'')]) 400 ''/p''
      \<lparr>data = [(''abc123'', ''tenantA'')], expires_at = 400\<rparr>))) = [''/p'']
   \<and> fst (get_ssm_json (\<lambda>p. Inr [(''abc123'', ''tenantB'')]) 400 ''/p''
      \<lparr>data = [(''abc123'', ''tenantA'')], expires_at = 400\<rparr>) = [(''abc123'', ''tenantB'')]
   \<and> expires_at (fst (snd (get_ssm_json (\<lambda>p. Inr [(''abc123'', ''tenantB'')]) 400 ''/p''
      \<lparr>data = [(''abc123'', ''tenantA'')], expires_at = 400\<rparr>))) = 700"
  using get_ssm_json_hit_or_load
          [of "\<lparr>data = [(''abc123'', ''tenantA'')], expires_at = 400\<rparr>" 100
              "\<lambda>p. Inr [(''abc123'', ''tenantB'')]" "''/p''"]
        get_ssm_json_hit_or_load
          [of "\<lparr>data = [(''abc123'', ''tenantA'')], expires_at = 400\<rparr>" 400
              "\<lambda>p. Inr [(''abc123'', ''tenantB'')]" "''/p''"]
  by simp

text \<open>
  C7. When a get has to refresh and the load fails, the call returns the data the cache
  held (the empty mapping when it held none), the cache is exactly what it was, expiry
  included, and the only effects are the one read and the log line. Since nothing
  changed, a following get at the same or a later time reads the parameter store again.
\<close>

theorem get_ssm_json_failed_refresh:
  assumes "\<not> (data c \<noteq> [] \<and> now < expires_at c)"
    and "ssm path = Inl m"
  shows "fst (get_ssm_json ssm now path c) = data c
         \<and> (data c = [] \<longrightarrow> fst (get_ssm_json ssm now path c) = [])
         \<and> fst (snd (get_ssm_json ssm now path c)) = c
         \<and> snd (snd (get_ssm_json ssm now path c)) =
             [SsmGetParameter path, Print (''Failed to load SSM parameter '' @ path @ '': '' @ m)]
         \<and> (\<forall>ssm' now'. now \<le> now' \<longrightarrow>
               ssm_loads (snd (snd (get_ssm_json ssm' now' path
                                      (fst (snd (get_ssm_json ssm now path c)))))) = [path])"
proof -
  have run: "get_ssm_json ssm now path c =
      (data c, c, [SsmGetParameter path, Print (''Failed to load SSM parameter '' @ path @ '': '' @ m)])"
    using assms by (auto simp: get_ssm_json_def)
  have again: "ssm_loads (snd (snd (get_ssm_json ssm' now' path c))) = [path]"
    if "now \<le> now'" for ssm' now'
  proof -
    have "\<not> (data c \<noteq> [] \<and> now' < expires_at c)"
      using assms(1) that by auto
    then show ?thesis
      by (cases "ssm' path") (simp_all add: get_ssm_json_def)
  qed
  show ?thesis
    using again by (simp add: run)
qed

theorem get_ssm_json_failed_refresh_witness:
  "fst (get_ssm_json (\<lambda>p. Inl ''ThrottlingException'') 400 ''/p''
          \<lparr>data = [(''abc123'', ''tenantA'')], expires_at = 400\<rparr>) = [(''abc123'', ''tenantA'')]
   \<and> fst (snd (get_ssm_json (\<lambda>p. Inl ''ThrottlingException'') 400 ''/p''
          \<lparr>data = [(''abc123'', ''tenantA'')], expires_at = 400\<rparr>))
       = \<lparr>data = [(''abc123'', ''tenantA'')], expires_at = 400\<rparr>
   \<and> ssm_loads (snd (snd (get_ssm_json (\<lambda>p. Inr []) 401 ''/p''
          (fst (snd (get_ssm_json (\<lambda>p. Inl ''ThrottlingException'') 400 ''/p''
             \<lparr>data = [(''abc123'', ''tenantA'')], expires_at = 400\<rparr>)))))) = [''/p'']"
proof -
  note run = get_ssm_json_failed_refresh
    [where c = "\<lparr>data = [(''abc123'', ''tenantA'')], expires_at = 400\<rparr>" and now = 400
       and ssm = "\<lambda>p. Inl ''ThrottlingException''" and path = "''/p''"
       and m = "''ThrottlingException''"]
  have later: "(400::real) \<le> 401"
    by simp
  have miss: "\<not> (data \<lparr>data = [(''abc123'', ''tenantA'')], expires_at = 400\<rparr> \<noteq> []
                 \<and> (400::real) < expires_at \<lparr>data = [(''abc123'', ''tenantA'')], expires_at = 400\<rparr>)"
    by simp
  from run [OF miss refl] have first: "fst (get_ssm_json (\<lambda>p. Inl ''ThrottlingException'') 400 ''/p''
          \<lparr>data = [(''abc123'', ''tenantA'')], expires_at = 400\<rparr>) = [(''abc123'', ''tenantA'')]"
    by simp
  from run [OF miss refl] have kept: "fst (snd (get_ssm_json (\<lambda>p. Inl ''ThrottlingException'') 400 ''/p''
          \<lparr>data = [(''abc123'', ''tenantA'')], expires_at = 400\<rparr>))
       = \<lparr>data = [(''abc123'', ''tenantA'')], expires_at = 400\<rparr>"
    by simp
  from run [OF miss refl] have again: "\<forall>ssm' now'. 400 \<le> now' \<longrightarrow>
         ssm_loads (snd (snd (get_ssm_json ssm' now' ''/p''
            (fst (snd (get_ssm_json (\<lambda>p. Inl ''ThrottlingException'') 400 ''/p''
               \<lparr>data = [(''abc123'', ''tenantA'')], expires_at = 400\<rparr>)))))) = [''/p'']"
    by blast
  from again later have "ssm_loads (snd (snd (get_ssm_json (\<lambda>p. Inr []) 401 ''/p''
          (fst (snd (get_ssm_json (\<lambda>p. Inl ''ThrottlingException'') 400 ''/p''
             \<lparr>data = [(''abc123'', ''tenantA'')], expires_at = 400\<rparr>)))))) = [''/p'']"
    by blast
  with first kept show ?thesis
    by blast
qed

section \<open>Strings\<close>

lemma length_lower: "length (lower s) = length s"
  by (simp add: lower_def)

lemma split_not_Nil: "split sep s \<noteq> []"
  by (induction s) (auto split: list.splits)

lemma split_takeWhile:
  "split sep s =
     takeWhile (\<lambda>c. c \<noteq> sep) s #
       (case dropWhile (\<lambda>c. c \<noteq> sep) s of [] \<Rightarrow> [] | _ # r \<Rightarrow> split sep r)"
proof (induction s)
  case Nil
  show ?case by simp
next
  case (Cons c cs)
  show ?case
  proof (cases "c = sep")
    case True
    then show ?thesis by simp
  next
    case False
    then show ?thesis
      using Cons.IH by (cases "split sep cs") (simp_all add: split_not_Nil)
  qed
qed

lemma split_parts_free: "w \<in> set (split sep s) \<Longrightarrow> sep \<notin> set w"
proof (induction s arbitrary: w)
  case Nil
  then show ?case by simp
next
  case (Cons c cs)
  show ?case
  proof (cases "c = sep")
    case True
    with Cons show ?thesis by auto
  next
    case False
    obtain v vs where vs: "split sep cs = v # vs"
      using split_not_Nil [of sep cs] by (cases "split sep cs") auto
    with False Cons.prems have "w = c # v \<or> w \<in> set vs"
      by simp
    then show ?thesis
    proof
      assume "w = c # v"
      moreover have "sep \<notin> set v"
        using Cons.IH [of v] vs by simp
      ultimately show ?thesis
        using False by auto
    next
      assume "w \<in> set vs"
      then show ?thesis
        using Cons.IH [of w] vs by simp
    qed
  qed
qed

lemma join_split: "join [sep] (split sep s) = s"
proof (induction s)
  case Nil
  show ?case by simp
next
  case (Cons c cs)
  obtain v vs where vs: "split sep cs = v # vs"
    using split_not_Nil [of sep cs] by (cases "split sep cs") auto
  show ?case
  proof (cases "c = sep")
    case True
    then show ?thesis
      using Cons.IH vs by simp
  next
    case False
    then show ?thesis
      using Cons.IH vs by (cases vs) simp_all
  qed
qed

lemma join_Cons: "ps \<noteq> [] \<Longrightarrow> join sep (p # ps) = p @ sep @ join sep ps"
  by (cases ps) simp_all

lemma join_append:
  "xs \<noteq> [] \<Longrightarrow> ys \<noteq> [] \<Longrightarrow> join sep (xs @ ys) = join sep xs @ sep @ join sep ys"
proof (induction xs)
  case Nil
  then show ?case by simp
next
  case (Cons x xs)
  show ?case
  proof (cases "xs = []")
    case True
    with Cons.prems show ?thesis
      by (simp add: join_Cons)
  next
    case False
    with Cons show ?thesis
      by (simp add: join_Cons)
  qed
qed

section \<open>The decision builder\<close>

lemma six_parts:
  "6 \<le> length (xs :: 'a list) \<Longrightarrow> \<exists>a b c d e f r. xs = a # b # c # d # e # f # r"
  by (auto simp: numeral_eq_Suc Suc_le_length_iff)

lemma wildcard_resource_parts:
  assumes "split CHR '':'' resource = p1 # p2 # p3 # p4 # p5 # seg # others"
  shows "wildcard_resource resource =
           p1 @ '':'' @ p2 @ '':'' @ p3 @ '':'' @ p4 @ '':'' @ p5 @ '':'' @
           takeWhile (\<lambda>c. c \<noteq> CHR ''/'') seg @ ''/*''"
proof -
  obtain ws where "split CHR ''/'' seg = takeWhile (\<lambda>c. c \<noteq> CHR ''/'') seg # ws"
    using split_takeWhile [of "CHR ''/''" seg] by blast
  then show ?thesis
    using assms by (simp add: wildcard_resource_def)
qed

lemma build_policy_fields [simp]:
  "principalId (build_policy pr eff res uk tid) = pr"
  "policy_effects (build_policy pr eff res uk tid) = [eff]"
  "policy_resources (build_policy pr eff res uk tid) = [wildcard_resource res]"
  "policy_context (build_policy pr eff res uk tid) =
     (if truthy tid then [(''tenant_id'', the tid)] else [])"
  "usageIdentifierKey (build_policy pr eff res uk tid) = (if truthy uk then uk else None)"
  by (simp_all add: build_policy_def policy_effects_def policy_resources_def)

text \<open>
  C3 (as the code has it). A resource with at least six colon-separated segments is
  \<open>p1:p2:p3:p4:p5:api\<close> followed by a rest that is empty or starts at a colon or a
  slash, where \<open>api\<close> (the sixth segment up to its first slash, the API id of a method
  ARN) holds neither. The grant's resource pattern is that stem followed by \<open>/*\<close>: the
  stage and everything after it are cut off, so the grant covers every stage of the API.
\<close>

theorem build_policy_resource_api_wildcard:
  assumes "6 \<le> length (split CHR '':'' resource)"
  shows "\<exists>p1 p2 p3 p4 p5 api rest.
           resource = p1 @ '':'' @ p2 @ '':'' @ p3 @ '':'' @ p4 @ '':'' @ p5 @ '':'' @ api @ rest
         \<and> CHR '':'' \<notin> set (p1 @ p2 @ p3 @ p4 @ p5 @ api)
         \<and> CHR ''/'' \<notin> set api
         \<and> (rest = [] \<or> hd rest = CHR '':'' \<or> hd rest = CHR ''/'')
         \<and> policy_resources (build_policy principal_id effect resource usage_key tenant_id) =
             [p1 @ '':'' @ p2 @ '':'' @ p3 @ '':'' @ p4 @ '':'' @ p5 @ '':'' @ api @ ''/*'']"
proof -
  obtain p1 p2 p3 p4 p5 seg others
    where parts: "split CHR '':'' resource = p1 # p2 # p3 # p4 # p5 # seg # others"
    using six_parts [OF assms] by blast
  define api where "api = takeWhile (\<lambda>c. c \<noteq> CHR ''/'') seg"
  define tail where "tail = (if others = [] then [] else '':'' @ join '':'' others)"
  define rest where "rest = dropWhile (\<lambda>c. c \<noteq> CHR ''/'') seg @ tail"
  have seg: "seg = api @ dropWhile (\<lambda>c. c \<noteq> CHR ''/'') seg"
    by (simp add: api_def)
  have "resource = join '':'' (split CHR '':'' resource)"
    using join_split [of "CHR '':''" resource] by simp
  also have "\<dots> = p1 @ '':'' @ p2 @ '':'' @ p3 @ '':'' @ p4 @ '':'' @ p5 @ '':'' @ seg @ tail"
    unfolding parts tail_def by (cases others) simp_all
  finally have whole:
    "resource = p1 @ '':'' @ p2 @ '':'' @ p3 @ '':'' @ p4 @ '':'' @ p5 @ '':'' @ api @ rest"
    using seg by (simp add: rest_def)
  have free: "CHR '':'' \<notin> set w" if "w \<in> {p1, p2, p3, p4, p5, seg}" for w
    using split_parts_free [of w "CHR '':''" resource] that unfolding parts by auto
  have "set api \<subseteq> set seg"
    unfolding api_def by (auto dest: set_takeWhileD)
  with free have colon: "CHR '':'' \<notin> set (p1 @ p2 @ p3 @ p4 @ p5 @ api)"
    by auto
  have slash: "CHR ''/'' \<notin> set api"
    unfolding api_def by (auto dest: set_takeWhileD)
  have start: "rest = [] \<or> hd rest = CHR '':'' \<or> hd rest = CHR ''/''"
  proof (cases "dropWhile (\<lambda>c. c \<noteq> CHR ''/'') seg = []")
    case True
    show ?thesis
      unfolding rest_def tail_def True by simp
  next
    case False
    then have "hd (dropWhile (\<lambda>c. c \<noteq> CHR ''/'') seg) = CHR ''/''"
      using hd_dropWhile [of "\<lambda>c. c \<noteq> CHR ''/''" seg] by simp
    with False show ?thesis
      by (simp add: rest_def)
  qed
  have "policy_resources (build_policy principal_id effect resource usage_key tenant_id) =
          [p1 @ '':'' @ p2 @ '':'' @ p3 @ '':'' @ p4 @ '':'' @ p5 @ '':'' @ api @ ''/*'']"
    using wildcard_resource_parts [OF parts] by (simp add: api_def)
  with whole colon slash start show ?thesis
    by blast
qed

theorem build_policy_resource_api_wildcard_witness:
  "6 \<le> length (split CHR '':'' demo_arn)
   \<and> (\<exists>p1 p2 p3 p4 p5 api rest.
           demo_arn = p1 @ '':'' @ p2 @ '':'' @ p3 @ '':'' @ p4 @ '':'' @ p5 @ '':'' @ api @ rest
         \<and> CHR '':'' \<notin> set (p1 @ p2 @ p3 @ p4 @ p5 @ api)
         \<and> CHR ''/'' \<notin> set api
         \<and> (rest = [] \<or> hd rest = CHR '':'' \<or> hd rest = CHR ''/'')
         \<and> policy_resources (build_policy ''tenantA'' ''Allow'' demo_arn (Some ''key-789'') (Some ''tenantA'')) =
             [p1 @ '':'' @ p2 @ '':'' @ p3 @ '':'' @ p4 @ '':'' @ p5 @ '':'' @ api @ ''/*''])"
proof -
  have six: "6 \<le> length (split CHR '':'' demo_arn)"
    by (simp add: demo_arn_def)
  show ?thesis
    using six build_policy_resource_api_wildcard
            [OF six, of "''tenantA''" "''Allow''" "Some ''key-789''" "Some ''tenantA''"]
    by blast
qed

text \<open>
  C3 as the specification words it fails: for the method ARN of stage \<open>prod\<close> the
  pattern cut after the stage segment would be \<open>\<dots>:abc123/prod/*\<close>, and the builder
  grants \<open>\<dots>:abc123/*\<close>.
\<close>

theorem build_policy_resource_not_stage_wildcard:
  "6 \<le> length (split CHR '':'' demo_arn)
   \<and> stage_wildcard_spec demo_arn = ''arn:aws:execute-api:us-east-1:123456789012:abc123/prod/*''
   \<and> policy_resources (build_policy ''tenantA'' ''Allow'' demo_arn (Some ''key-789'') (Some ''tenantA''))
       = [''arn:aws:execute-api:us-east-1:123456789012:abc123/*'']
   \<and> policy_resources (build_policy ''tenantA'' ''Allow'' demo_arn (Some ''key-789'') (Some ''tenantA''))
       \<noteq> [stage_wildcard_spec demo_arn]"
  by (simp add: demo_arn_def stage_wildcard_spec_def wildcard_resource_def)

section \<open>The entry point\<close>

subsection \<open>The credential\<close>

lemma credential_empty_iff:
  "(credential event = []) =
     (map_of event ''authorizationToken'' = None
      \<or> map_of event ''authorizationToken'' = Some []
      \<or> (\<exists>t. map_of event ''authorizationToken'' = Some t \<and> lower t = ''bearer ''))"
proof -
  have strip: "((if startswith (lower t) ''bearer '' then drop 7 t else t) = []) =
                 (t = [] \<or> lower t = ''bearer '')" for t
  proof (cases "startswith (lower t) ''bearer ''")
    case True
    have len: "length ''bearer '' = 7"
      by simp
    have pre: "take 7 (lower t) = ''bearer ''"
      using True unfolding startswith_def len .
    then have "t \<noteq> []"
      by (auto simp: lower_def)
    moreover have "(drop 7 t = []) = (lower t = ''bearer '')"
    proof
      assume "drop 7 t = []"
      then have "length (lower t) \<le> 7"
        by (simp add: length_lower)
      with pre show "lower t = ''bearer ''"
        by simp
    next
      assume "lower t = ''bearer ''"
      then have "length (lower t) = 7"
        by simp
      then show "drop 7 t = []"
        by (simp add: length_lower)
    qed
    ultimately show ?thesis
      using True by simp
  next
    case False
    then have "lower t \<noteq> ''bearer ''"
      by (auto simp: startswith_def)
    with False show ?thesis
      by simp
  qed
  show ?thesis
    by (cases "map_of event ''authorizationToken''")
       (simp_all add: credential_def dict_get_def Let_def strip)
qed

subsection \<open>The five ways through the handler\<close>

lemma handler_no_credential:
  "credential event = [] \<Longrightarrow>
     lambda_handler e now1 now2 event st = (Inl (Exception ''Unauthorized''), st, [])"
  by (simp add: lambda_handler_def)

lemma handler_invalid_token:
  assumes "credential event \<noteq> []"
    and "fst (validate_token e st (credential event)) = Inl x"
  shows "fst (lambda_handler e now1 now2 event st) = Inl (Exception ''Unauthorized'')"
proof -
  obtain st1 out1 where "validate_token e st (credential event) = (Inl x, st1, out1)"
    using assms(2) by (cases "validate_token e st (credential event)") auto
  then show ?thesis
    using assms(1) by (simp add: lambda_handler_def)
qed


text \<open>The caller identity, written out on the claims.\<close>

lemma caller_identity_eq:
  "caller_identity claims =
     (case map_of claims ''client_id'' of
        Some (c # cs) \<Rightarrow> c # cs
      | _ \<Rightarrow> (case map_of claims ''sub'' of Some s \<Rightarrow> s | None \<Rightarrow> []))"
  by (simp add: caller_identity_def dict_get_def split: option.splits list.splits)

lemma handler_unknown_caller:
  assumes "credential event \<noteq> []"
    and "validate_token e st (credential event) = (Inr claims, st1, out1)"
    and "get_client_tenant_map e now1 st1 = (client_tenant_map, st2, out2)"
    and "\<not> truthy (map_of client_tenant_map (caller_identity claims))"
  shows "fst (lambda_handler e now1 now2 event st) =
           Inr (build_policy
                  (if caller_identity claims \<noteq> [] then caller_identity claims else ''unknown'')
                  ''Deny'' (dict_get event ''methodArn'' ''*'') None None)"
  using assms by (simp add: lambda_handler_def Let_def)

lemma handler_unmapped_tenant:
  assumes "credential event \<noteq> []"
    and "validate_token e st (credential event) = (Inr claims, st1, out1)"
    and "get_client_tenant_map e now1 st1 = (client_tenant_map, st2, out2)"
    and "map_of client_tenant_map (caller_identity claims) = Some tenant_id"
    and "tenant_id \<noteq> []"
    and "get_tenant_api_key_map e now2 st2 = (tenant_api_key_map, st3, out3)"
    and "\<not> truthy (map_of tenant_api_key_map tenant_id)"
  shows "fst (lambda_handler e now1 now2 event st) =
           Inr (build_policy tenant_id ''Deny'' (dict_get event ''methodArn'' ''*'') None None)"
  using assms by (simp add: lambda_handler_def Let_def)

lemma handler_allow:
  assumes "credential event \<noteq> []"
    and "validate_token e st (credential event) = (Inr claims, st1, out1)"
    and "get_client_tenant_map e now1 st1 = (client_tenant_map, st2, out2)"
    and "map_of client_tenant_map (caller_identity claims) = Some tenant_id"
    and "tenant_id \<noteq> []"
    and "get_tenant_api_key_map e now2 st2 = (tenant_api_key_map, st3, out3)"
    and "map_of tenant_api_key_map tenant_id = Some api_key_value"
    and "api_key_value \<noteq> []"
  shows "fst (lambda_handler e now1 now2 event st) =
           Inr (build_policy tenant_id ''Allow'' (dict_get event ''methodArn'' ''*'')
                  (Some api_key_value) (Some tenant_id))"
  using assms by (simp add: lambda_handler_def Let_def)

text \<open>Every run of the handler is one of the five.\<close>

lemma handler_cases:
  obtains
    (no_credential) "credential event = []"
      "fst (lambda_handler e now1 now2 event st) = Inl (Exception ''Unauthorized'')"
  | (invalid_token) x where "credential event \<noteq> []"
      "fst (validate_token e st (credential event)) = Inl x"
      "fst (lambda_handler e now1 now2 event st) = Inl (Exception ''Unauthorized'')"
  | (unknown_caller) claims where "credential event \<noteq> []"
      "fst (validate_token e st (credential event)) = Inr claims"
      "fst (lambda_handler e now1 now2 event st) =
         Inr (build_policy
                (if caller_identity claims \<noteq> [] then caller_identity claims else ''unknown'')
                ''Deny'' (dict_get event ''methodArn'' ''*'') None None)"
  | (unmapped_tenant) claims tenant_id where "credential event \<noteq> []"
      "fst (validate_token e st (credential event)) = Inr claims"
      "tenant_id \<noteq> []"
      "fst (lambda_handler e now1 now2 event st) =
         Inr (build_policy tenant_id ''Deny'' (dict_get event ''methodArn'' ''*'') None None)"
  | (allow) claims tenant_id api_key_value where "credential event \<noteq> []"
      "fst (validate_token e st (credential event)) = Inr claims"
      "tenant_id \<noteq> []" "api_key_value \<noteq> []"
      "fst (lambda_handler e now1 now2 event st) =
         Inr (build_policy tenant_id ''Allow'' (dict_get event ''methodArn'' ''*'')
                (Some api_key_value) (Some tenant_id))"
proof (cases "credential event = []")
  case True
  then show ?thesis
    using no_credential handler_no_credential [of event e now1 now2 st] by simp
next
  case cred: False
  obtain r st1 out1 where v: "validate_token e st (credential event) = (r, st1, out1)"
    by (cases "validate_token e st (credential event)") auto
  show ?thesis
  proof (cases r)
    case (Inl x)
    then show ?thesis
      using cred invalid_token [of x] handler_invalid_token [OF cred, of e st x now1 now2] v by simp
  next
    case (Inr claims)
    obtain ctm st2 out2 where c: "get_client_tenant_map e now1 st1 = (ctm, st2, out2)"
      by (cases "get_client_tenant_map e now1 st1") auto
    note v' = v [unfolded Inr]
    show ?thesis
    proof (cases "truthy (map_of ctm (caller_identity claims))")
      case False
      then show ?thesis
        using cred unknown_caller [of claims] handler_unknown_caller [OF cred v' c] v' by simp
    next
      case True
      then obtain tenant_id where t: "map_of ctm (caller_identity claims) = Some tenant_id"
        and tne: "tenant_id \<noteq> []"
        by (cases "map_of ctm (caller_identity claims)") auto
      obtain tam st3 out3 where k: "get_tenant_api_key_map e now2 st2 = (tam, st3, out3)"
        by (cases "get_tenant_api_key_map e now2 st2") auto
      show ?thesis
      proof (cases "truthy (map_of tam tenant_id)")
        case False
        then show ?thesis
          using cred unmapped_tenant [of claims tenant_id]
            handler_unmapped_tenant [OF cred v' c t tne k] v' tne by simp
      next
        case True
        then obtain api_key_value where a: "map_of tam tenant_id = Some api_key_value"
          and ane: "api_key_value \<noteq> []"
          by (cases "map_of tam tenant_id") auto
        show ?thesis
          using cred allow [of claims tenant_id api_key_value]
            handler_allow [OF cred v' c t tne k a ane] v' tne ane by simp
      qed
    qed
  qed
qed

subsection \<open>Token validation\<close>



lemma validate_token_access:
  assumes "fst (validate_token e st token) = Inr claims"
  shows "map_of claims ''token_use'' = Some ''access''"
  using assms
  by (auto simp: validate_token_def split: sum.splits option.splits prod.splits if_splits)

subsection \<open>The concrete deployment, run\<close>

lemma demo_credential:
  "credential (demo_event ''Bearer good'') = ''good''"
  "credential (demo_event ''bearer idtok'') = ''idtok''"
  "credential (demo_event ''BEARER forged'') = ''forged''"
  "credential (demo_event ''anon'') = ''anon''"
  "credential (demo_event ''Bearer subtok'') = ''subtok''"
  "credential (demo_event ''Bearer '') = []"
  "dict_get (demo_event t) ''methodArn'' ''*'' = demo_arn"
  by (simp_all add: credential_def demo_event_def dict_get_def startswith_def lower_def
        lower_char_def)

lemma demo_validate:
  "validate_token (demo_env m1 m2) initial_state ''good'' =
     (Inr [(''client_id'', ''abc123''), (''token_use'', ''access'')], demo_state1, [UrlOpen])"
  "validate_token (demo_env m1 m2) initial_state ''anon'' =
     (Inr [(''token_use'', ''access'')], demo_state1, [UrlOpen])"
  "validate_token (demo_env m1 m2) initial_state ''subtok'' =
     (Inr [(''client_id'', []), (''sub'', ''user-42''), (''token_use'', ''access'')],
      demo_state1, [UrlOpen])"
  "validate_token (demo_env m1 m2) initial_state ''idtok'' =
     (Inl (ValueError (''token_use must be '' @ [CHR 0x27] @ ''access'' @ [CHR 0x27])),
      demo_state1, [UrlOpen])"
  "validate_token (demo_env m1 m2) initial_state ''forged'' =
     (Inl (PyJWTError ''Signature verification failed''), demo_state1, [UrlOpen])"
  by (simp_all add: validate_token_def get_public_key_def get_jwks_def demo_env_def
        demo_jwks_def demo_state1_def initial_state_def dict_get_def)


lemma demo_maps:
  "get_client_tenant_map (demo_env m1 m2) now1 demo_state1 =
     (m1, demo_state2 m1 now1, [SsmGetParameter ''/auth/client-tenant-map''])"
  "get_tenant_api_key_map (demo_env m1 m2) now2 (demo_state2 m1 now1) =
     (m2, demo_state3 m1 now1 m2 now2, [SsmGetParameter ''/auth/tenant-api-key-map''])"
  by (simp_all add: get_client_tenant_map_def get_tenant_api_key_map_def get_ssm_json_def
        demo_env_def demo_state1_def demo_state2_def demo_state3_def initial_state_def
        CACHE_TTL_SECONDS_def)

lemma demo_identity:
  "caller_identity [(''client_id'', ''abc123''), (''token_use'', ''access'')] = ''abc123''"
  "caller_identity [(''token_use'', ''access'')] = []"
  by (simp_all add: caller_identity_def dict_get_def)

subsection \<open>Faults\<close>




text \<open>
  C9 (as the code has it). The handler raises \<open>Exception("Unauthorized")\<close> exactly when
  the credential is missing or empty after the scheme prefix is cut off, or when token
  validation fails: this fault has these two causes and no other. The credential is
  empty exactly when the event has no token, an empty token, or a token that is
  \<open>Bearer \<close> (in any case) and nothing more; then the handler stops before any effect,
  with the module state untouched.
\<close>

theorem lambda_handler_fault_iff:
  "(fst (lambda_handler e now1 now2 event st) = Inl (Exception ''Unauthorized''))
     = (credential event = [] \<or> isl (fst (validate_token e st (credential event))))
   \<and> (credential event = [] \<longrightarrow>
        lambda_handler e now1 now2 event st = (Inl (Exception ''Unauthorized''), st, []))
   \<and> (credential event = []) =
       (map_of event ''authorizationToken'' = None
        \<or> map_of event ''authorizationToken'' = Some []
        \<or> (\<exists>t. map_of event ''authorizationToken'' = Some t \<and> lower t = ''bearer ''))"
proof -
  have "(fst (lambda_handler e now1 now2 event st) = Inl (Exception ''Unauthorized''))
          = (credential event = [] \<or> isl (fst (validate_token e st (credential event))))"
    by (cases rule: handler_cases [of event e now1 now2 st]) simp_all
  then show ?thesis
    using handler_no_credential [of event e now1 now2 st] credential_empty_iff [of event]
    by blast
qed

theorem lambda_handler_fault_iff_witness:
  "credential (demo_event ''Bearer '') = []
   \<and> lambda_handler (demo_env [(''abc123'', ''tenantA'')] [(''tenantA'', ''key-789'')])
        100 101 (demo_event ''Bearer '') initial_state
       = (Inl (Exception ''Unauthorized''), initial_state, [])
   \<and> isl (fst (validate_token (demo_env [(''abc123'', ''tenantA'')] [(''tenantA'', ''key-789'')])
        initial_state (credential (demo_event ''BEARER forged''))))
   \<and> fst (lambda_handler (demo_env [(''abc123'', ''tenantA'')] [(''tenantA'', ''key-789'')])
        100 101 (demo_event ''BEARER forged'') initial_state)
       = Inl (Exception ''Unauthorized'')
   \<and> credential (demo_event ''Bearer good'') \<noteq> []
   \<and> \<not> isl (fst (validate_token (demo_env [(''abc123'', ''tenantA'')] [(''tenantA'', ''key-789'')])
        initial_state (credential (demo_event ''Bearer good''))))
   \<and> fst (lambda_handler (demo_env [(''abc123'', ''tenantA'')] [(''tenantA'', ''key-789'')])
        100 101 (demo_event ''Bearer good'') initial_state)
       \<noteq> Inl (Exception ''Unauthorized'')"
proof -
  let ?e = "demo_env [(''abc123'', ''tenantA'')] [(''tenantA'', ''key-789'')]"
  have cred: "credential (demo_event ''Bearer '') = []"
    by (simp add: demo_credential)
  note stop = lambda_handler_fault_iff
    [of ?e 100 101 "demo_event ''Bearer ''" initial_state, THEN conjunct2, THEN conjunct1]
  have run: "lambda_handler ?e 100 101 (demo_event ''Bearer '') initial_state
       = (Inl (Exception ''Unauthorized''), initial_state, [])"
    using stop cred by (rule mp)
  have bad: "isl (fst (validate_token ?e initial_state (credential (demo_event ''BEARER forged''))))"
    by (simp add: demo_credential demo_validate)
  note forged = lambda_handler_fault_iff
    [of ?e 100 101 "demo_event ''BEARER forged''" initial_state, THEN conjunct1]
  from forged bad
  have run2: "fst (lambda_handler ?e 100 101 (demo_event ''BEARER forged'') initial_state)
       = Inl (Exception ''Unauthorized'')"
    by blast
  have cred3: "credential (demo_event ''Bearer good'') \<noteq> []"
    by (simp add: demo_credential)
  have ok: "\<not> isl (fst (validate_token ?e initial_state (credential (demo_event ''Bearer good''))))"
    by (simp add: demo_credential demo_validate)
  note passed = lambda_handler_fault_iff
    [of ?e 100 101 "demo_event ''Bearer good''" initial_state, THEN conjunct1]
  from passed cred3 ok
  have run3: "fst (lambda_handler ?e 100 101 (demo_event ''Bearer good'') initial_state)
       \<noteq> Inl (Exception ''Unauthorized'')"
    by blast
  from cred run bad run2 cred3 ok run3 show ?thesis
    by blast
qed

text \<open>
  C9 as stated fails in its last part: a credential that is present, with a forged
  signature, produces the same fault.
\<close>

theorem lambda_handler_fault_with_credential:
  "credential (demo_event ''BEARER forged'') = ''forged''
   \<and> credential (demo_event ''BEARER forged'') \<noteq> []
   \<and> fst (lambda_handler (demo_env [(''abc123'', ''tenantA'')] [(''tenantA'', ''key-789'')])
            100 101 (demo_event ''BEARER forged'') initial_state)
       = Inl (Exception ''Unauthorized'')"
proof -
  have cred: "credential (demo_event ''BEARER forged'') \<noteq> []"
    by (simp add: demo_credential)
  have "fst (lambda_handler (demo_env [(''abc123'', ''tenantA'')] [(''tenantA'', ''key-789'')])
            100 101 (demo_event ''BEARER forged'') initial_state)
          = Inl (Exception ''Unauthorized'')"
    by (rule handler_invalid_token [OF cred]) (simp add: demo_credential demo_validate)
  then show ?thesis
    by (simp add: demo_credential)
qed

subsection \<open>Decisions\<close>

text \<open>
  C5 (as the code has it). A credential that validates, a caller identity that the
  identity-to-tenant mapping sends to a non-empty tenant, and a tenant that the
  tenant-to-key mapping sends to a non-empty rate-limit key: the decision is Allow,
  its principal is the tenant, its usage key is exactly that rate-limit key, and its
  context maps \<open>tenant_id\<close> to the tenant.
\<close>

theorem lambda_handler_allow:
  assumes "credential event \<noteq> []"
    and "validate_token e st (credential event) = (Inr claims, st1, out1)"
    and "get_client_tenant_map e now1 st1 = (client_tenant_map, st2, out2)"
    and "map_of client_tenant_map (caller_identity claims) = Some tenant_id"
    and "tenant_id \<noteq> []"
    and "get_tenant_api_key_map e now2 st2 = (tenant_api_key_map, st3, out3)"
    and "map_of tenant_api_key_map tenant_id = Some api_key_value"
    and "api_key_value \<noteq> []"
  shows "\<exists>p. fst (lambda_handler e now1 now2 event st) = Inr p
             \<and> policy_effects p = [''Allow'']
             \<and> principalId p = tenant_id
             \<and> usageIdentifierKey p = Some api_key_value
             \<and> policy_context p = [(''tenant_id'', tenant_id)]
             \<and> map_of (policy_context p) ''tenant_id'' = Some tenant_id"
  using handler_allow [OF assms] assms(5,8) by simp

theorem lambda_handler_allow_witness:
  "\<exists>p. fst (lambda_handler (demo_env [(''abc123'', ''tenantA'')] [(''tenantA'', ''key-789'')])
             100 101 (demo_event ''Bearer good'') initial_state) = Inr p
       \<and> policy_effects p = [''Allow'']
       \<and> principalId p = ''tenantA''
       \<and> usageIdentifierKey p = Some ''key-789''
       \<and> policy_context p = [(''tenant_id'', ''tenantA'')]
       \<and> map_of (policy_context p) ''tenant_id'' = Some ''tenantA''"
proof -
  have cred: "credential (demo_event ''Bearer good'') \<noteq> []"
    by (simp add: demo_credential)
  have valid: "validate_token (demo_env [(''abc123'', ''tenantA'')] [(''tenantA'', ''key-789'')])
                 initial_state (credential (demo_event ''Bearer good''))
               = (Inr [(''client_id'', ''abc123''), (''token_use'', ''access'')], demo_state1, [UrlOpen])"
    by (simp add: demo_credential demo_validate)
  have tenant: "map_of [(''abc123'', ''tenantA'')]
                  (caller_identity [(''client_id'', ''abc123''), (''token_use'', ''access'')])
                = Some ''tenantA''"
    by (simp add: demo_identity)
  have named: "''tenantA'' \<noteq> []"
    by simp
  have key: "map_of [(''tenantA'', ''key-789'')] ''tenantA'' = Some ''key-789''"
    by simp
  have keyed: "''key-789'' \<noteq> []"
    by simp
  show ?thesis
    by (rule lambda_handler_allow [OF cred valid demo_maps(1) tenant named demo_maps(2) key keyed])
qed

text \<open>
  C5 as stated fails when a mapping holds an empty string: the token is valid, client
  \<open>abc123\<close> is mapped to \<open>tenantA\<close>, \<open>tenantA\<close> is mapped to the rate-limit key \<open>""\<close>, and
  the decision is a Deny without usage key.
\<close>

theorem lambda_handler_empty_key_not_allow:
  "validate_token (demo_env [(''abc123'', ''tenantA'')] [(''tenantA'', [])]) initial_state
      (credential (demo_event ''Bearer good''))
     = (Inr [(''client_id'', ''abc123''), (''token_use'', ''access'')], demo_state1, [UrlOpen])
   \<and> map_of [(''abc123'', ''tenantA'')]
        (caller_identity [(''client_id'', ''abc123''), (''token_use'', ''access'')]) = Some ''tenantA''
   \<and> map_of [(''tenantA'', [])] ''tenantA'' = Some []
   \<and> fst (lambda_handler (demo_env [(''abc123'', ''tenantA'')] [(''tenantA'', [])])
            100 101 (demo_event ''Bearer good'') initial_state)
       = Inr (build_policy ''tenantA'' ''Deny'' demo_arn None None)
   \<and> policy_effects (build_policy ''tenantA'' ''Deny'' demo_arn None None) = [''Deny'']
   \<and> policy_effects (build_policy ''tenantA'' ''Deny'' demo_arn None None) \<noteq> [''Allow'']
   \<and> usageIdentifierKey (build_policy ''tenantA'' ''Deny'' demo_arn None None) = None
   \<and> usageIdentifierKey (build_policy ''tenantA'' ''Deny'' demo_arn None None) \<noteq> Some []"
proof -
  have cred: "credential (demo_event ''Bearer good'') \<noteq> []"
    by (simp add: demo_credential)
  have valid: "validate_token (demo_env [(''abc123'', ''tenantA'')] [(''tenantA'', [])])
                 initial_state (credential (demo_event ''Bearer good''))
               = (Inr [(''client_id'', ''abc123''), (''token_use'', ''access'')], demo_state1, [UrlOpen])"
    by (simp add: demo_credential demo_validate)
  have tenant: "map_of [(''abc123'', ''tenantA'')]
                  (caller_identity [(''client_id'', ''abc123''), (''token_use'', ''access'')])
                = Some ''tenantA''"
    by (simp add: demo_identity)
  have named: "''tenantA'' \<noteq> []"
    by simp
  have nokey: "\<not> truthy (map_of [(''tenantA'', [])] ''tenantA'')"
    by simp
  have "fst (lambda_handler (demo_env [(''abc123'', ''tenantA'')] [(''tenantA'', [])])
            100 101 (demo_event ''Bearer good'') initial_state)
       = Inr (build_policy ''tenantA'' ''Deny''
                (dict_get (demo_event ''Bearer good'') ''methodArn'' ''*'') None None)"
    by (rule handler_unmapped_tenant [OF cred valid demo_maps(1) tenant named demo_maps(2) nokey])
  then show ?thesis
    using valid tenant by (simp add: demo_credential)
qed

text \<open>
  C6. A credential that validates and a caller identity with no entry in the
  identity-to-tenant mapping, where the caller identity is the \<open>client_id\<close> claim when
  that is there and not empty, else the \<open>sub\<close> claim when that is there, else the empty
  string: the decision is Deny, its principal is the caller identity, or \<open>unknown\<close>
  when the identity is empty, the context is empty and there is no usage key.
\<close>

theorem lambda_handler_unknown_caller_deny:
  assumes "credential event \<noteq> []"
    and "validate_token e st (credential event) = (Inr claims, st1, out1)"
    and "identity =
           (case map_of claims ''client_id'' of
              Some (c # cs) \<Rightarrow> c # cs
            | _ \<Rightarrow> (case map_of claims ''sub'' of Some s \<Rightarrow> s | None \<Rightarrow> []))"
    and "get_client_tenant_map e now1 st1 = (client_tenant_map, st2, out2)"
    and "map_of client_tenant_map identity = None"
  shows "\<exists>p. fst (lambda_handler e now1 now2 event st) = Inr p
             \<and> policy_effects p = [''Deny'']
             \<and> principalId p = (if identity = [] then ''unknown'' else identity)
             \<and> map_of (policy_context p) ''tenant_id'' = None
             \<and> policy_context p = []
             \<and> usageIdentifierKey p = None"
proof -
  have same: "caller_identity claims = identity"
    unfolding assms(3) by (rule caller_identity_eq)
  have "\<not> truthy (map_of client_tenant_map (caller_identity claims))"
    using assms(5) same by simp
  from handler_unknown_caller [OF assms(1,2,4) this] same show ?thesis
    by simp
qed

theorem lambda_handler_unknown_caller_deny_witness:
  "(\<exists>p. fst (lambda_handler (demo_env [] [(''tenantA'', ''key-789'')])
              100 101 (demo_event ''Bearer good'') initial_state) = Inr p
        \<and> policy_effects p = [''Deny'']
        \<and> principalId p = ''abc123''
        \<and> map_of (policy_context p) ''tenant_id'' = None
        \<and> policy_context p = []
        \<and> usageIdentifierKey p = None)
   \<and> (\<exists>p. fst (lambda_handler (demo_env [(''abc123'', ''tenantA'')] [(''tenantA'', ''key-789'')])
              100 101 (demo_event ''Bearer subtok'') initial_state) = Inr p
        \<and> policy_effects p = [''Deny'']
        \<and> principalId p = ''user-42''
        \<and> map_of (policy_context p) ''tenant_id'' = None
        \<and> policy_context p = []
        \<and> usageIdentifierKey p = None)
   \<and> (\<exists>p. fst (lambda_handler (demo_env [(''abc123'', ''tenantA'')] [(''tenantA'', ''key-789'')])
              100 101 (demo_event ''anon'') initial_state) = Inr p
        \<and> policy_effects p = [''Deny'']
        \<and> principalId p = ''unknown''
        \<and> map_of (policy_context p) ''tenant_id'' = None
        \<and> policy_context p = []
        \<and> usageIdentifierKey p = None)"
proof -
  have cred1: "credential (demo_event ''Bearer good'') \<noteq> []"
    by (simp add: demo_credential)
  have valid1: "validate_token (demo_env [] [(''tenantA'', ''key-789'')])
                 initial_state (credential (demo_event ''Bearer good''))
               = (Inr [(''client_id'', ''abc123''), (''token_use'', ''access'')], demo_state1, [UrlOpen])"
    by (simp add: demo_credential demo_validate)
  have ident1: "''abc123'' =
           (case map_of [(''client_id'', ''abc123''), (''token_use'', ''access'')] ''client_id'' of
              Some (c # cs) \<Rightarrow> c # cs
            | _ \<Rightarrow> (case map_of [(''client_id'', ''abc123''), (''token_use'', ''access'')] ''sub'' of
                      Some s \<Rightarrow> s | None \<Rightarrow> []))"
    by simp
  have maps1: "get_client_tenant_map (demo_env [] [(''tenantA'', ''key-789'')]) 100 demo_state1 =
                 ([], demo_state2 [] 100, [SsmGetParameter ''/auth/client-tenant-map''])"
    by (rule demo_maps(1))
  have absent1: "map_of ([] :: dict) ''abc123'' = None"
    by simp
  have cred2: "credential (demo_event ''Bearer subtok'') \<noteq> []"
    by (simp add: demo_credential)
  have valid2: "validate_token (demo_env [(''abc123'', ''tenantA'')] [(''tenantA'', ''key-789'')])
                 initial_state (credential (demo_event ''Bearer subtok''))
               = (Inr [(''client_id'', []), (''sub'', ''user-42''), (''token_use'', ''access'')],
                  demo_state1, [UrlOpen])"
    by (simp add: demo_credential demo_validate)
  have ident2: "''user-42'' =
           (case map_of [(''client_id'', []), (''sub'', ''user-42''), (''token_use'', ''access'')]
                   ''client_id'' of
              Some (c # cs) \<Rightarrow> c # cs
            | _ \<Rightarrow> (case map_of [(''client_id'', []), (''sub'', ''user-42''), (''token_use'', ''access'')]
                             ''sub'' of
                      Some s \<Rightarrow> s | None \<Rightarrow> []))"
    by simp
  have maps2: "get_client_tenant_map (demo_env [(''abc123'', ''tenantA'')] [(''tenantA'', ''key-789'')])
                 100 demo_state1 =
                 ([(''abc123'', ''tenantA'')], demo_state2 [(''abc123'', ''tenantA'')] 100,
                  [SsmGetParameter ''/auth/client-tenant-map''])"
    by (rule demo_maps(1))
  have absent2: "map_of [(''abc123'', ''tenantA'')] ''user-42'' = None"
    by simp
  have cred3: "credential (demo_event ''anon'') \<noteq> []"
    by (simp add: demo_credential)
  have valid3: "validate_token (demo_env [(''abc123'', ''tenantA'')] [(''tenantA'', ''key-789'')])
                 initial_state (credential (demo_event ''anon''))
               = (Inr [(''token_use'', ''access'')], demo_state1, [UrlOpen])"
    by (simp add: demo_credential demo_validate)
  have ident3: "[] =
           (case map_of [(''token_use'', ''access'')] ''client_id'' of
              Some (c # cs) \<Rightarrow> c # cs
            | _ \<Rightarrow> (case map_of [(''token_use'', ''access'')] ''sub'' of
                      Some s \<Rightarrow> s | None \<Rightarrow> []))"
    by simp
  have absent3: "map_of [(''abc123'', ''tenantA'')] [] = None"
    by simp
  show ?thesis
    using lambda_handler_unknown_caller_deny [OF cred1 valid1 ident1 maps1 absent1, of 101]
      lambda_handler_unknown_caller_deny [OF cred2 valid2 ident2 maps2 absent2, of 101]
      lambda_handler_unknown_caller_deny [OF cred3 valid3 ident3 maps2 absent3, of 101]
    by simp
qed

text \<open>
  C2 (as the code has it). A credential that validates, a caller identity that the
  identity-to-tenant mapping sends to a non-empty tenant, and no entry for that tenant
  in the tenant-to-key mapping: the decision is Deny, its principal is the tenant, it
  has no usage key, and its context is empty, since the handler passes no tenant to
  the builder on this path.
\<close>

theorem lambda_handler_unmapped_tenant_deny:
  assumes "credential event \<noteq> []"
    and "validate_token e st (credential event) = (Inr claims, st1, out1)"
    and "get_client_tenant_map e now1 st1 = (client_tenant_map, st2, out2)"
    and "map_of client_tenant_map (caller_identity claims) = Some tenant_id"
    and "tenant_id \<noteq> []"
    and "get_tenant_api_key_map e now2 st2 = (tenant_api_key_map, st3, out3)"
    and "map_of tenant_api_key_map tenant_id = None"
  shows "\<exists>p. fst (lambda_handler e now1 now2 event st) = Inr p
             \<and> policy_effects p = [''Deny'']
             \<and> principalId p = tenant_id
             \<and> usageIdentifierKey p = None
             \<and> policy_context p = []"
proof -
  have "\<not> truthy (map_of tenant_api_key_map tenant_id)"
    using assms(7) by simp
  from handler_unmapped_tenant [OF assms(1-6) this] show ?thesis
    by simp
qed

theorem lambda_handler_unmapped_tenant_deny_witness:
  "\<exists>p. fst (lambda_handler (demo_env [(''abc123'', ''tenantA'')] [(''tenantB'', ''key-456'')])
             100 101 (demo_event ''Bearer good'') initial_state) = Inr p
       \<and> policy_effects p = [''Deny'']
       \<and> principalId p = ''tenantA''
       \<and> usageIdentifierKey p = None
       \<and> policy_context p = []"
proof -
  have cred: "credential (demo_event ''Bearer good'') \<noteq> []"
    by (simp add: demo_credential)
  have valid: "validate_token (demo_env [(''abc123'', ''tenantA'')] [(''tenantB'', ''key-456'')])
                 initial_state (credential (demo_event ''Bearer good''))
               = (Inr [(''client_id'', ''abc123''), (''token_use'', ''access'')], demo_state1, [UrlOpen])"
    by (simp add: demo_credential demo_validate)
  have tenant: "map_of [(''abc123'', ''tenantA'')]
                  (caller_identity [(''client_id'', ''abc123''), (''token_use'', ''access'')])
                = Some ''tenantA''"
    by (simp add: demo_identity)
  have named: "''tenantA'' \<noteq> []"
    by simp
  have nokey: "map_of [(''tenantB'', ''key-456'')] ''tenantA'' = None"
    by simp
  show ?thesis
    by (rule lambda_handler_unmapped_tenant_deny
               [OF cred valid demo_maps(1) tenant named demo_maps(2) nokey])
qed

text \<open>
  C2 as stated fails: client \<open>abc123\<close> resolves to \<open>tenantA\<close>, the tenant-to-key mapping
  has no entry for \<open>tenantA\<close>, and the Deny that comes back carries no tenant identifier
  in its context.
\<close>

theorem lambda_handler_unmapped_tenant_no_context:
  "map_of [(''abc123'', ''tenantA'')] ''abc123'' = Some ''tenantA''
   \<and> map_of ([] :: dict) ''tenantA'' = None
   \<and> fst (lambda_handler (demo_env [(''abc123'', ''tenantA'')] [])
            100 101 (demo_event ''Bearer good'') initial_state)
       = Inr (build_policy ''tenantA'' ''Deny'' demo_arn None None)
   \<and> policy_effects (build_policy ''tenantA'' ''Deny'' demo_arn None None) = [''Deny'']
   \<and> policy_context (build_policy ''tenantA'' ''Deny'' demo_arn None None) = []
   \<and> map_of (policy_context (build_policy ''tenantA'' ''Deny'' demo_arn None None)) ''tenant_id''
       \<noteq> Some ''tenantA''"
proof -
  have cred: "credential (demo_event ''Bearer good'') \<noteq> []"
    by (simp add: demo_credential)
  have valid: "validate_token (demo_env [(''abc123'', ''tenantA'')] [])
                 initial_state (credential (demo_event ''Bearer good''))
               = (Inr [(''client_id'', ''abc123''), (''token_use'', ''access'')], demo_state1, [UrlOpen])"
    by (simp add: demo_credential demo_validate)
  have tenant: "map_of [(''abc123'', ''tenantA'')]
                  (caller_identity [(''client_id'', ''abc123''), (''token_use'', ''access'')])
                = Some ''tenantA''"
    by (simp add: demo_identity)
  have named: "''tenantA'' \<noteq> []"
    by simp
  have nokey: "\<not> truthy (map_of ([] :: dict) ''tenantA'')"
    by simp
  have "fst (lambda_handler (demo_env [(''abc123'', ''tenantA'')] [])
            100 101 (demo_event ''Bearer good'') initial_state)
       = Inr (build_policy ''tenantA'' ''Deny''
                (dict_get (demo_event ''Bearer good'') ''methodArn'' ''*'') None None)"
    by (rule handler_unmapped_tenant [OF cred valid demo_maps(1) tenant named demo_maps(2) nokey])
  then show ?thesis
    by (simp add: demo_credential)
qed

text \<open>
  C10. An entry whose value is the empty string counts as no entry. Let the caller
  identity be the \<open>client_id\<close> claim when that is there and not empty, else the \<open>sub\<close>
  claim, else the empty string. When the identity-to-tenant mapping sends it to the
  empty string, or has no entry for it, the result is one and the same decision: a Deny
  whose principal is the caller identity, or \<open>unknown\<close> when that is empty, with an
  empty context and no usage key, on the wildcard of the requested resource. When the
  identity resolves to a non-empty tenant and the tenant-to-key mapping sends that
  tenant to the empty string, or has no entry for it, the result is one and the same
  decision: a Deny whose principal is the tenant, with an empty context and no usage
  key.
\<close>

theorem lambda_handler_empty_value_as_absent:
  assumes "credential event \<noteq> []"
    and "validate_token e st (credential event) = (Inr claims, st1, out1)"
    and "identity =
           (case map_of claims ''client_id'' of
              Some (c # cs) \<Rightarrow> c # cs
            | _ \<Rightarrow> (case map_of claims ''sub'' of Some s \<Rightarrow> s | None \<Rightarrow> []))"
    and "get_client_tenant_map e now1 st1 = (client_tenant_map, st2, out2)"
  shows "(map_of client_tenant_map identity = Some []
            \<or> map_of client_tenant_map identity = None \<longrightarrow>
          (\<exists>p. fst (lambda_handler e now1 now2 event st) = Inr p
              \<and> p = build_policy (if identity \<noteq> [] then identity else ''unknown'')
                       ''Deny'' (dict_get event ''methodArn'' ''*'') None None
              \<and> policy_effects p = [''Deny'']
              \<and> principalId p = (if identity = [] then ''unknown'' else identity)
              \<and> policy_context p = []
              \<and> map_of (policy_context p) ''tenant_id'' = None
              \<and> usageIdentifierKey p = None
              \<and> policy_resources p = [wildcard_resource (dict_get event ''methodArn'' ''*'')]))
       \<and> (\<forall>tenant_id tenant_api_key_map st3 out3.
             map_of client_tenant_map identity = Some tenant_id
             \<and> tenant_id \<noteq> []
             \<and> get_tenant_api_key_map e now2 st2 = (tenant_api_key_map, st3, out3)
             \<and> (map_of tenant_api_key_map tenant_id = Some []
                  \<or> map_of tenant_api_key_map tenant_id = None) \<longrightarrow>
             (\<exists>p. fst (lambda_handler e now1 now2 event st) = Inr p
                 \<and> p = build_policy tenant_id ''Deny'' (dict_get event ''methodArn'' ''*'') None None
                 \<and> policy_effects p = [''Deny'']
                 \<and> principalId p = tenant_id
                 \<and> policy_context p = []
                 \<and> usageIdentifierKey p = None
                 \<and> policy_resources p = [wildcard_resource (dict_get event ''methodArn'' ''*'')]))"
proof (intro conjI impI allI)
  have same: "caller_identity claims = identity"
    unfolding assms(3) by (rule caller_identity_eq)
  assume "map_of client_tenant_map identity = Some [] \<or> map_of client_tenant_map identity = None"
  then have "\<not> truthy (map_of client_tenant_map (caller_identity claims))"
    using same by auto
  from handler_unknown_caller [OF assms(1,2,4) this, of now2] same
  show "\<exists>p. fst (lambda_handler e now1 now2 event st) = Inr p
              \<and> p = build_policy (if identity \<noteq> [] then identity else ''unknown'')
                       ''Deny'' (dict_get event ''methodArn'' ''*'') None None
              \<and> policy_effects p = [''Deny'']
              \<and> principalId p = (if identity = [] then ''unknown'' else identity)
              \<and> policy_context p = []
              \<and> map_of (policy_context p) ''tenant_id'' = None
              \<and> usageIdentifierKey p = None
              \<and> policy_resources p = [wildcard_resource (dict_get event ''methodArn'' ''*'')]"
    by simp
next
  fix tenant_id tenant_api_key_map st3 out3
  have same: "caller_identity claims = identity"
    unfolding assms(3) by (rule caller_identity_eq)
  assume h: "map_of client_tenant_map identity = Some tenant_id
             \<and> tenant_id \<noteq> []
             \<and> get_tenant_api_key_map e now2 st2 = (tenant_api_key_map, st3, out3)
             \<and> (map_of tenant_api_key_map tenant_id = Some []
                  \<or> map_of tenant_api_key_map tenant_id = None)"
  then have falsy: "\<not> truthy (map_of tenant_api_key_map tenant_id)"
    by auto
  from h same have t: "map_of client_tenant_map (caller_identity claims) = Some tenant_id"
    and tne: "tenant_id \<noteq> []"
    and k: "get_tenant_api_key_map e now2 st2 = (tenant_api_key_map, st3, out3)"
    by simp_all
  from handler_unmapped_tenant [OF assms(1,2,4) t tne k falsy]
  show "\<exists>p. fst (lambda_handler e now1 now2 event st) = Inr p
                 \<and> p = build_policy tenant_id ''Deny'' (dict_get event ''methodArn'' ''*'') None None
                 \<and> policy_effects p = [''Deny'']
                 \<and> principalId p = tenant_id
                 \<and> policy_context p = []
                 \<and> usageIdentifierKey p = None
                 \<and> policy_resources p = [wildcard_resource (dict_get event ''methodArn'' ''*'')]"
    by simp
qed

theorem lambda_handler_empty_value_as_absent_witness:
  "(\<exists>p. fst (lambda_handler (demo_env [(''abc123'', [])] [(''tenantA'', ''key-789'')])
             100 101 (demo_event ''Bearer good'') initial_state) = Inr p
       \<and> fst (lambda_handler (demo_env [] [(''tenantA'', ''key-789'')])
             100 101 (demo_event ''Bearer good'') initial_state) = Inr p
       \<and> policy_effects p = [''Deny'']
       \<and> principalId p = ''abc123''
       \<and> policy_context p = []
       \<and> usageIdentifierKey p = None)
   \<and> (\<exists>p. fst (lambda_handler (demo_env [(''abc123'', ''tenantA'')] [(''tenantA'', [])])
             100 101 (demo_event ''Bearer good'') initial_state) = Inr p
       \<and> fst (lambda_handler (demo_env [(''abc123'', ''tenantA'')] [])
             100 101 (demo_event ''Bearer good'') initial_state) = Inr p
       \<and> policy_effects p = [''Deny'']
       \<and> principalId p = ''tenantA''
       \<and> policy_context p = []
       \<and> usageIdentifierKey p = None)"
proof -
  let ?claims = "[(''client_id'', ''abc123''), (''token_use'', ''access'')]"
  let ?arn = "dict_get (demo_event ''Bearer good'') ''methodArn'' ''*''"
  have cred: "credential (demo_event ''Bearer good'') \<noteq> []"
    by (simp add: demo_credential)
  have valid: "validate_token (demo_env m1 m2) initial_state (credential (demo_event ''Bearer good''))
               = (Inr ?claims, demo_state1, [UrlOpen])" for m1 m2
    by (simp add: demo_credential demo_validate)
  have ident: "''abc123'' =
           (case map_of ?claims ''client_id'' of
              Some (c # cs) \<Rightarrow> c # cs
            | _ \<Rightarrow> (case map_of ?claims ''sub'' of Some s \<Rightarrow> s | None \<Rightarrow> []))"
    by simp
  have maps: "get_client_tenant_map (demo_env m1 m2) 100 demo_state1 =
                (m1, demo_state2 m1 100, [SsmGetParameter ''/auth/client-tenant-map''])" for m1 m2
    by (rule demo_maps(1))
  have keys: "get_tenant_api_key_map (demo_env m1 m2) 101 (demo_state2 m1 100) =
                (m2, demo_state3 m1 100 m2 101, [SsmGetParameter ''/auth/tenant-api-key-map''])"
    for m1 m2
    by (rule demo_maps(2))
  note empty_tenant = lambda_handler_empty_value_as_absent
    [OF cred valid ident maps, of "[(''abc123'', [])]" "[(''tenantA'', ''key-789'')]" 101,
     THEN conjunct1]
  note no_tenant = lambda_handler_empty_value_as_absent
    [OF cred valid ident maps, of "[]" "[(''tenantA'', ''key-789'')]" 101, THEN conjunct1]
  note empty_key = lambda_handler_empty_value_as_absent
    [OF cred valid ident maps, of "[(''abc123'', ''tenantA'')]" "[(''tenantA'', [])]" 101,
     THEN conjunct2]
  note no_key = lambda_handler_empty_value_as_absent
    [OF cred valid ident maps, of "[(''abc123'', ''tenantA'')]" "[]" 101, THEN conjunct2]
  have a_prem: "map_of [(''abc123'', [])] ''abc123'' = Some []
                 \<or> map_of [(''abc123'', [])] ''abc123'' = None"
    by simp
  from empty_tenant a_prem
  have a: "fst (lambda_handler (demo_env [(''abc123'', [])] [(''tenantA'', ''key-789'')])
             100 101 (demo_event ''Bearer good'') initial_state)
        = Inr (build_policy (if ''abc123'' \<noteq> [] then ''abc123'' else ''unknown'') ''Deny'' ?arn None None)
      \<and> policy_effects (build_policy (if ''abc123'' \<noteq> [] then ''abc123'' else ''unknown'')
                          ''Deny'' ?arn None None) = [''Deny'']
      \<and> principalId (build_policy (if ''abc123'' \<noteq> [] then ''abc123'' else ''unknown'')
                          ''Deny'' ?arn None None) = (if ''abc123'' = [] then ''unknown'' else ''abc123'')
      \<and> policy_context (build_policy (if ''abc123'' \<noteq> [] then ''abc123'' else ''unknown'')
                          ''Deny'' ?arn None None) = []
      \<and> usageIdentifierKey (build_policy (if ''abc123'' \<noteq> [] then ''abc123'' else ''unknown'')
                          ''Deny'' ?arn None None) = None"
    by blast
  have b_prem: "map_of ([] :: dict) ''abc123'' = Some [] \<or> map_of ([] :: dict) ''abc123'' = None"
    by simp
  from no_tenant b_prem
  have b: "fst (lambda_handler (demo_env [] [(''tenantA'', ''key-789'')])
             100 101 (demo_event ''Bearer good'') initial_state)
        = Inr (build_policy (if ''abc123'' \<noteq> [] then ''abc123'' else ''unknown'') ''Deny'' ?arn None None)"
    by blast
  have c_prem: "map_of [(''abc123'', ''tenantA'')] ''abc123'' = Some ''tenantA''
      \<and> ''tenantA'' \<noteq> []
      \<and> get_tenant_api_key_map (demo_env [(''abc123'', ''tenantA'')] [(''tenantA'', [])]) 101
           (demo_state2 [(''abc123'', ''tenantA'')] 100)
         = ([(''tenantA'', [])], demo_state3 [(''abc123'', ''tenantA'')] 100 [(''tenantA'', [])] 101,
            [SsmGetParameter ''/auth/tenant-api-key-map''])
      \<and> (map_of [(''tenantA'', [])] ''tenantA'' = Some []
           \<or> map_of [(''tenantA'', [])] ''tenantA'' = None)"
    by (simp add: keys)
  from empty_key c_prem
  have c: "fst (lambda_handler (demo_env [(''abc123'', ''tenantA'')] [(''tenantA'', [])])
             100 101 (demo_event ''Bearer good'') initial_state)
        = Inr (build_policy ''tenantA'' ''Deny'' ?arn None None)
      \<and> policy_effects (build_policy ''tenantA'' ''Deny'' ?arn None None) = [''Deny'']
      \<and> principalId (build_policy ''tenantA'' ''Deny'' ?arn None None) = ''tenantA''
      \<and> policy_context (build_policy ''tenantA'' ''Deny'' ?arn None None) = []
      \<and> usageIdentifierKey (build_policy ''tenantA'' ''Deny'' ?arn None None) = None"
    by blast
  have d_prem: "map_of [(''abc123'', ''tenantA'')] ''abc123'' = Some ''tenantA''
      \<and> ''tenantA'' \<noteq> []
      \<and> get_tenant_api_key_map (demo_env [(''abc123'', ''tenantA'')] []) 101
           (demo_state2 [(''abc123'', ''tenantA'')] 100)
         = ([], demo_state3 [(''abc123'', ''tenantA'')] 100 [] 101,
            [SsmGetParameter ''/auth/tenant-api-key-map''])
      \<and> (map_of ([] :: dict) ''tenantA'' = Some [] \<or> map_of ([] :: dict) ''tenantA'' = None)"
    by (simp add: keys)
  from no_key d_prem
  have d: "fst (lambda_handler (demo_env [(''abc123'', ''tenantA'')] [])
             100 101 (demo_event ''Bearer good'') initial_state)
        = Inr (build_policy ''tenantA'' ''Deny'' ?arn None None)"
    by blast
  from a b have first: "\<exists>p. fst (lambda_handler (demo_env [(''abc123'', [])] [(''tenantA'', ''key-789'')])
             100 101 (demo_event ''Bearer good'') initial_state) = Inr p
       \<and> fst (lambda_handler (demo_env [] [(''tenantA'', ''key-789'')])
             100 101 (demo_event ''Bearer good'') initial_state) = Inr p
       \<and> policy_effects p = [''Deny'']
       \<and> principalId p = ''abc123''
       \<and> policy_context p = []
       \<and> usageIdentifierKey p = None"
    by simp
  from c d have second: "\<exists>p. fst (lambda_handler (demo_env [(''abc123'', ''tenantA'')] [(''tenantA'', [])])
             100 101 (demo_event ''Bearer good'') initial_state) = Inr p
       \<and> fst (lambda_handler (demo_env [(''abc123'', ''tenantA'')] [])
             100 101 (demo_event ''Bearer good'') initial_state) = Inr p
       \<and> policy_effects p = [''Deny'']
       \<and> principalId p = ''tenantA''
       \<and> policy_context p = []
       \<and> usageIdentifierKey p = None"
    by simp
  from first second show ?thesis
    by (rule conjI)
qed

subsection \<open>The invariant of a decision\<close>

text \<open>
  C4. Whatever decision the handler returns is an Allow or a Deny. An Allow carries a
  non-empty usage key and a non-empty \<open>tenant_id\<close> in its context; a Deny carries no
  usage key.
\<close>

theorem lambda_handler_decision_invariant:
  assumes "fst (lambda_handler e now1 now2 event st) = Inr p"
  shows "(policy_effects p = [''Allow''] \<longrightarrow>
            (\<exists>k. usageIdentifierKey p = Some k \<and> k \<noteq> [])
            \<and> (\<exists>t. map_of (policy_context p) ''tenant_id'' = Some t \<and> t \<noteq> []))
       \<and> (policy_effects p = [''Deny''] \<longrightarrow> usageIdentifierKey p = None)
       \<and> (policy_effects p = [''Allow''] \<or> policy_effects p = [''Deny''])"
proof (cases rule: handler_cases [of event e now1 now2 st])
  case no_credential
  with assms show ?thesis by simp
next
  case (invalid_token x)
  with assms show ?thesis by simp
next
  case (unknown_caller claims)
  with assms have "p = build_policy
      (if caller_identity claims \<noteq> [] then caller_identity claims else ''unknown'')
      ''Deny'' (dict_get event ''methodArn'' ''*'') None None"
    by simp
  then show ?thesis by simp
next
  case (unmapped_tenant claims tenant_id)
  with assms have "p = build_policy tenant_id ''Deny'' (dict_get event ''methodArn'' ''*'') None None"
    by simp
  then show ?thesis by simp
next
  case (allow claims tenant_id api_key_value)
  with assms have "p = build_policy tenant_id ''Allow'' (dict_get event ''methodArn'' ''*'')
                         (Some api_key_value) (Some tenant_id)"
    by simp
  with allow(3,4) show ?thesis by simp
qed

theorem lambda_handler_decision_invariant_witness:
  "fst (lambda_handler (demo_env [(''abc123'', ''tenantA'')] [(''tenantA'', ''key-789'')])
          100 101 (demo_event ''Bearer good'') initial_state)
     = Inr (build_policy ''tenantA'' ''Allow'' demo_arn (Some ''key-789'') (Some ''tenantA''))
   \<and> policy_effects (build_policy ''tenantA'' ''Allow'' demo_arn (Some ''key-789'') (Some ''tenantA''))
       = [''Allow'']
   \<and> (\<exists>k. usageIdentifierKey
             (build_policy ''tenantA'' ''Allow'' demo_arn (Some ''key-789'') (Some ''tenantA'')) = Some k
           \<and> k \<noteq> [])
   \<and> (\<exists>t. map_of (policy_context
             (build_policy ''tenantA'' ''Allow'' demo_arn (Some ''key-789'') (Some ''tenantA'')))
             ''tenant_id'' = Some t \<and> t \<noteq> [])
   \<and> fst (lambda_handler (demo_env [] [(''tenantA'', ''key-789'')])
          100 101 (demo_event ''Bearer good'') initial_state)
     = Inr (build_policy ''abc123'' ''Deny'' demo_arn None None)
   \<and> policy_effects (build_policy ''abc123'' ''Deny'' demo_arn None None) = [''Deny'']
   \<and> usageIdentifierKey (build_policy ''abc123'' ''Deny'' demo_arn None None) = None"
proof -
  let ?claims = "[(''client_id'', ''abc123''), (''token_use'', ''access'')]"
  have cred: "credential (demo_event ''Bearer good'') \<noteq> []"
    by (simp add: demo_credential)
  have valid: "validate_token (demo_env m1 m2) initial_state (credential (demo_event ''Bearer good''))
               = (Inr ?claims, demo_state1, [UrlOpen])" for m1 m2
    by (simp add: demo_credential demo_validate)
  have arn: "dict_get (demo_event ''Bearer good'') ''methodArn'' ''*'' = demo_arn"
    by (rule demo_credential(7))
  have tenant: "map_of [(''abc123'', ''tenantA'')] (caller_identity ?claims) = Some ''tenantA''"
    by (simp add: demo_identity)
  have named: "''tenantA'' \<noteq> []"
    by simp
  have key: "map_of [(''tenantA'', ''key-789'')] ''tenantA'' = Some ''key-789''"
    by simp
  have keyed: "''key-789'' \<noteq> []"
    by simp
  have granted: "fst (lambda_handler (demo_env [(''abc123'', ''tenantA'')] [(''tenantA'', ''key-789'')])
          100 101 (demo_event ''Bearer good'') initial_state)
     = Inr (build_policy ''tenantA'' ''Allow'' demo_arn (Some ''key-789'') (Some ''tenantA''))"
    using handler_allow [OF cred valid demo_maps(1) tenant named demo_maps(2) key keyed]
    unfolding arn .
  have nobody: "\<not> truthy (map_of ([] :: dict) (caller_identity ?claims))"
    by simp
  have denied: "fst (lambda_handler (demo_env [] [(''tenantA'', ''key-789'')])
          100 101 (demo_event ''Bearer good'') initial_state)
     = Inr (build_policy ''abc123'' ''Deny'' demo_arn None None)"
  proof -
    have "fst (lambda_handler (demo_env [] [(''tenantA'', ''key-789'')])
            100 101 (demo_event ''Bearer good'') initial_state)
       = Inr (build_policy
                (if caller_identity ?claims \<noteq> [] then caller_identity ?claims else ''unknown'')
                ''Deny'' (dict_get (demo_event ''Bearer good'') ''methodArn'' ''*'') None None)"
      by (rule handler_unknown_caller [OF cred valid demo_maps(1) nobody])
    then show ?thesis
      by (simp add: arn demo_identity)
  qed
  have allow_effect:
    "policy_effects (build_policy ''tenantA'' ''Allow'' demo_arn (Some ''key-789'') (Some ''tenantA''))
       = [''Allow'']"
    by simp
  have deny_effect: "policy_effects (build_policy ''abc123'' ''Deny'' demo_arn None None) = [''Deny'']"
    by simp
  from lambda_handler_decision_invariant [OF granted] allow_effect
  have inv_allow:
    "(\<exists>k. usageIdentifierKey
             (build_policy ''tenantA'' ''Allow'' demo_arn (Some ''key-789'') (Some ''tenantA'')) = Some k
           \<and> k \<noteq> [])
     \<and> (\<exists>t. map_of (policy_context
             (build_policy ''tenantA'' ''Allow'' demo_arn (Some ''key-789'') (Some ''tenantA'')))
             ''tenant_id'' = Some t \<and> t \<noteq> [])"
    by blast
  from lambda_handler_decision_invariant [OF denied] deny_effect
  have inv_deny: "usageIdentifierKey (build_policy ''abc123'' ''Deny'' demo_arn None None) = None"
    by blast
  from granted denied allow_effect deny_effect inv_allow inv_deny show ?thesis
    by blast
qed

end
